theory Spec2Isabelle
  imports Main "HOL-Library.Word"
begin

section \<open>JavaScript strings and values\<close>

text \<open>
  The two phases of the action, \<open>startCacheServer\<close> of \<open>launch-server.ts\<close> and
  \<open>cleanupCacheServer\<close> of \<open>cleanup-server.ts\<close>, are sequences of calls to
  the CI toolkit, the file system, the process API and three libraries. The
  model runs a phase against a world that answers these calls and yields the
  trace of the calls made, in order and with their arguments.

  A JavaScript string is a sequence of UTF-16 code units. String literals of the
  source are written \<open>js ''...''\<close>; the three signs used in the messages are
  given by their code units (\<open>launch-server.ts\<close> holds the check mark as its
  three UTF-8 bytes \<open>E2 9C 85\<close>).
\<close>

type_synonym jschar = "16 word"
type_synonym jsstring = "jschar list"

definition js :: "string \<Rightarrow> jsstring" where
  "js s = map (\<lambda>c. of_char c) s"

definition check_mark :: jsstring where
  \<comment> \<open>U+2705\<close>
  "check_mark = [0x2705]"

definition cross_mark :: jsstring where
  \<comment> \<open>U+274C\<close>
  "cross_mark = [0x274C]"

definition clipboard :: jsstring where
  \<comment> \<open>U+1F4CB, a surrogate pair\<close>
  "clipboard = [0xD83D, 0xDCCB]"

definition NL :: jschar where
  "NL = 0x0A"

datatype jsval = JString jsstring | JNumber int | JBool bool | JNull | JUndefined

text \<open>An object literal with string keys: the keys in insertion order.\<close>

type_synonym jsobj = "(jsstring \<times> jsval) list"

subsection \<open>Number to string\<close>

text \<open>
  \<open>Number.prototype.toString\<close> and the template literal \<open>`${n}`\<close> on a
  non-negative integer: its decimal digits. The numbers of this program are
  ports and process ids, far below \<open>10^21\<close> where JavaScript switches to
  exponent notation.
\<close>

definition digit_char :: "nat \<Rightarrow> jschar" where
  "digit_char d = of_nat (48 + d)"

fun Number_toString :: "nat \<Rightarrow> jsstring" where
  "Number_toString n =
     (if n < 10 then [digit_char n]
      else Number_toString (n div 10) @ [digit_char (n mod 10)])"

declare Number_toString.simps [simp del]

definition String_int :: "int \<Rightarrow> jsstring" where
  "String_int i = (if i < 0 then js ''-'' @ Number_toString (nat (- i)) else Number_toString (nat i))"

text \<open>\<open>String(v)\<close> for a primitive value.\<close>

fun String_of :: "jsval \<Rightarrow> jsstring" where
  "String_of (JString s) = s"
| "String_of (JNumber i) = String_int i"
| "String_of (JBool b) = (if b then js ''true'' else js ''false'')"
| "String_of JNull = js ''null''"
| "String_of JUndefined = js ''undefined''"

subsection \<open>Buffer to hex\<close>

text \<open>\<open>Buffer.prototype.toString('hex')\<close>: two lowercase digits per byte, high nibble first.\<close>

definition hex_digits :: jsstring where
  "hex_digits = js ''0123456789abcdef''"

definition hex_byte :: "8 word \<Rightarrow> jsstring" where
  "hex_byte b = [hex_digits ! (unat b div 16), hex_digits ! (unat b mod 16)]"

definition toString_hex :: "8 word list \<Rightarrow> jsstring" where
  "toString_hex buf = concat (map hex_byte buf)"

subsection \<open>Whitespace, trim, split, join, parseInt\<close>

text \<open>The code units ECMAScript counts as white space or line terminator.\<close>

definition is_space :: "jschar \<Rightarrow> bool" where
  "is_space c \<longleftrightarrow>
     c \<in> {0x09, 0x0A, 0x0B, 0x0C, 0x0D, 0x20, 0xA0, 0x1680, 0x2028, 0x2029, 0x202F,
          0x205F, 0x3000, 0xFEFF}
     \<or> (0x2000 \<le> c \<and> c \<le> 0x200A)"

definition trim :: "jsstring \<Rightarrow> jsstring" where
  "trim s = rev (dropWhile is_space (rev (dropWhile is_space s)))"

text \<open>\<open>s.split('\n')\<close>: never empty; the empty string gives one empty line.\<close>

fun split_nl :: "jsstring \<Rightarrow> jsstring list" where
  "split_nl [] = [[]]"
| "split_nl (c # cs) =
     (if c = NL then [] # split_nl cs
      else (case split_nl cs of l # ls \<Rightarrow> (c # l) # ls | [] \<Rightarrow> [[c]]))"

text \<open>\<open>lines.join('\n')\<close>.\<close>

fun join_nl :: "jsstring list \<Rightarrow> jsstring" where
  "join_nl [] = []"
| "join_nl [l] = l"
| "join_nl (l # ls) = l @ NL # join_nl ls"

text \<open>
  \<open>parseInt(s)\<close> without a radix: leading white space is skipped, then an optional
  sign, then a \<open>0x\<close>/\<open>0X\<close> prefix selects base 16, then the longest prefix of digits
  is read. \<open>None\<close> is \<open>NaN\<close>. (The result is exact; JavaScript rounds beyond
  \<open>2^53\<close>, which no process id reaches.)
\<close>

definition digit_val :: "jschar \<Rightarrow> nat option" where
  "digit_val c =
     (if 0x30 \<le> c \<and> c \<le> 0x39 then Some (unat c - 0x30)
      else if 0x61 \<le> c \<and> c \<le> 0x7A then Some (unat c - 0x61 + 10)
      else if 0x41 \<le> c \<and> c \<le> 0x5A then Some (unat c - 0x41 + 10)
      else None)"

definition is_digit_in :: "nat \<Rightarrow> jschar \<Rightarrow> bool" where
  "is_digit_in radix c = (case digit_val c of Some d \<Rightarrow> d < radix | None \<Rightarrow> False)"

definition parse_digits :: "nat \<Rightarrow> jsstring \<Rightarrow> int option" where
  "parse_digits radix s =
     (let ds = takeWhile (is_digit_in radix) s
      in if ds = [] then None
         else Some (int (foldl (\<lambda>acc c. acc * radix + (case digit_val c of Some d \<Rightarrow> d | None \<Rightarrow> 0)) 0 ds)))"

definition parseInt :: "jsstring \<Rightarrow> int option" where
  "parseInt s =
     (let t = dropWhile is_space s;
          neg = (t \<noteq> [] \<and> hd t = 0x2D);
          u = (if t \<noteq> [] \<and> (hd t = 0x2B \<or> hd t = 0x2D) then tl t else t);
          hex = (length u \<ge> 2 \<and> hd u = 0x30 \<and> (u ! 1 = 0x78 \<or> u ! 1 = 0x58));
          r = (if hex then parse_digits 16 (drop 2 u) else parse_digits 10 u)
      in map_option (\<lambda>v. if neg then - v else v) r)"

section \<open>External collaborators\<close>

text \<open>
  A thrown value is either an instance of \<open>Error\<close> with its message or any other
  value. The handlers of the program read it with
  \<open>error instanceof Error ? error.message : String(error)\<close>.
\<close>

datatype exn = Error jsstring | Thrown jsval

fun error_message :: "exn \<Rightarrow> jsstring" where
  "error_message (Error m) = m"
| "error_message (Thrown v) = String_of v"

text \<open>
  Every call that leaves the program is an event of the run's trace, in the
  order the calls are made, with the arguments the call receives:
  \<^item> \<open>Mkdir path recursive\<close> is \<open>fs.mkdir(path, {recursive})\<close>;
  \<^item> \<open>GetPortPromise\<close> is \<open>portfinder.getPortPromise()\<close>;
  \<^item> \<open>RandomBytes n\<close> is \<open>randomBytes(n)\<close>;
  \<^item> \<open>GetInput\<close>, \<open>ExportVariable\<close>, \<open>Info\<close>, \<open>SaveState\<close>, \<open>SetFailed\<close>,
    \<open>GetState\<close>, \<open>StartGroup\<close>, \<open>EndGroup\<close> and \<open>Debug\<close> are the functions of
    \<open>@actions/core\<close> of these names;
  \<^item> \<open>Spawn command args detached stdio env\<close> is
    \<open>spawn(command, args, {detached, stdio, env})\<close> and \<open>Unref\<close> is
    \<open>serverProcess.unref()\<close>;
  \<^item> \<open>WaitPort host port timeout\<close> is \<open>waitPort({host, port, timeout})\<close>;
  \<^item> \<open>Kill pid signal\<close> is \<open>process.kill(pid, signal)\<close>, with \<open>None\<close> for \<open>NaN\<close>;
  \<^item> \<open>ReadFile path encoding\<close> is \<open>fs.readFile(path, encoding)\<close>.
\<close>

datatype event =
    Mkdir jsstring bool
  | GetPortPromise
  | RandomBytes nat
  | GetInput jsstring
  | ExportVariable jsstring jsstring
  | Spawn jsstring "jsstring list" bool jsstring jsobj
  | Unref
  | WaitPort jsstring nat nat
  | Info jsstring
  | SaveState jsstring jsstring
  | SetFailed jsstring
  | GetState jsstring
  | Kill "int option" jsstring
  | ReadFile jsstring jsstring
  | StartGroup jsstring
  | EndGroup
  | Debug jsstring

text \<open>An issue of a schema validation: the key whose value has the wrong type.\<close>

datatype zod_issue = Invalid_type jsstring

text \<open>
  The world answers the calls: \<open>fault\<close> says which calls throw (or reject) and
  what; the other fields are the values the calls return when they do not throw.
  \<open>free_port\<close> is the port the allocator finds, \<open>child_pid\<close> the \<open>pid\<close> of the
  spawned child (\<open>None\<close> for \<open>undefined\<close>), \<open>port_open\<close> the \<open>open\<close> field of
  the readiness poll's result. \<open>inputs\<close> and \<open>state_store\<close> are the key-value
  stores of the CI platform, holding the strings \<open>core.getInput\<close> and
  \<open>core.getState\<close> return (the empty string for a key that is not set);
  \<open>process_env\<close> is \<open>process.env\<close>, each variable once; \<open>entropy\<close> is the
  secure random source; \<open>zod_message\<close> is the message the schema library gives a
  validation error; \<open>file_content\<close> is what a successful read of a file
  returns; \<open>second_settles_first\<close> says which of the two log reads of the
  cleanup settles first.
\<close>

record world =
  fault :: "event \<Rightarrow> exn option"
  free_port :: nat
  entropy :: "nat \<Rightarrow> 8 word"
  inputs :: "(jsstring \<times> jsstring) list"
  process_env :: "(jsstring \<times> jsstring) list"
  child_pid :: "nat option"
  port_open :: bool
  zod_message :: "zod_issue list \<Rightarrow> jsstring"
  state_store :: "(jsstring \<times> jsstring) list"
  file_content :: "jsstring \<Rightarrow> jsstring"
  second_settles_first :: bool

subsection \<open>Traces with exceptions\<close>

text \<open>A computation yields the events it made and either a thrown value or a result.\<close>

type_synonym 'a io = "event list \<times> (exn + 'a)"

definition ret :: "'a \<Rightarrow> 'a io" where
  "ret a = ([], Inr a)"

definition throw :: "exn \<Rightarrow> 'a io" where
  "throw e = ([], Inl e)"

definition bnd :: "'a io \<Rightarrow> ('a \<Rightarrow> 'b io) \<Rightarrow> 'b io" where
  "bnd m f =
     (case m of
        (tr, Inl e) \<Rightarrow> (tr, Inl e)
      | (tr, Inr a) \<Rightarrow> (case f a of (tr', r) \<Rightarrow> (tr @ tr', r)))"

definition try_catch :: "'a io \<Rightarrow> (exn \<Rightarrow> 'a io) \<Rightarrow> 'a io" where
  "try_catch m h =
     (case m of
        (tr, Inl e) \<Rightarrow> (case h e of (tr', r) \<Rightarrow> (tr @ tr', r))
      | (tr, Inr a) \<Rightarrow> (tr, Inr a))"

text \<open>
  A call that may throw, and a call on the logging channel (\<open>core.info\<close>,
  \<open>core.debug\<close>, \<open>core.startGroup\<close>, \<open>core.endGroup\<close>, \<open>core.setFailed\<close>), which
  writes a line to the standard output and is taken not to throw.
\<close>

definition call :: "world \<Rightarrow> event \<Rightarrow> 'a \<Rightarrow> 'a io" where
  "call w ev a = ([ev], case fault w ev of Some e \<Rightarrow> Inl e | None \<Rightarrow> Inr a)"

definition emit :: "event \<Rightarrow> unit io" where
  "emit ev = ([ev], Inr ())"

definition lookup_or_empty :: "(jsstring \<times> jsstring) list \<Rightarrow> jsstring \<Rightarrow> jsstring" where
  "lookup_or_empty kvs k = (case map_of kvs k of None \<Rightarrow> [] | Some v \<Rightarrow> v)"

text \<open>\<open>crypto.randomBytes(n)\<close>: a buffer of \<open>n\<close> bytes from the random source.\<close>

definition randomBytes :: "world \<Rightarrow> nat \<Rightarrow> 8 word list io" where
  "randomBytes w n = call w (RandomBytes n) (map (entropy w) [0..<n])"

definition getInput :: "world \<Rightarrow> jsstring \<Rightarrow> jsstring io" where
  "getInput w name = call w (GetInput name) (lookup_or_empty (inputs w) name)"

definition getState :: "world \<Rightarrow> jsstring \<Rightarrow> jsstring io" where
  "getState w name = call w (GetState name) (lookup_or_empty (state_store w) name)"

subsection \<open>Objects\<close>

text \<open>
  \<open>{...a, ...b}\<close>: the properties of \<open>b\<close> are assigned onto a copy of \<open>a\<close> in
  order; an existing key keeps its place and takes the new value, a new key goes
  to the end.
\<close>

fun assign :: "jsstring \<Rightarrow> jsval \<Rightarrow> jsobj \<Rightarrow> jsobj" where
  "assign k v [] = [(k, v)]"
| "assign k v ((k', v') # ps) = (if k' = k then (k, v) # ps else (k', v') # assign k v ps)"

definition spread :: "jsobj \<Rightarrow> jsobj \<Rightarrow> jsobj" where
  "spread a b = foldl (\<lambda>acc (k, v). assign k v acc) a b"

text \<open>\<open>a || b\<close> on strings: the empty string is falsy.\<close>

definition or_else :: "jsstring \<Rightarrow> jsstring \<Rightarrow> jsstring" where
  "or_else a b = (if a = [] then b else a)"

section \<open>launch-server.ts\<close>

text \<open>
  \<open>ServerEnvSchema.parse\<close>: \<open>PORT\<close> and \<open>TURBO_TOKEN\<close> must be strings,
  \<open>STORAGE_PROVIDER\<close> and \<open>STORAGE_PATH\<close> strings or undefined; keys outside the
  schema are stripped and the result has the schema's key order.
\<close>

definition z_string :: "jsobj \<Rightarrow> jsstring \<Rightarrow> zod_issue list" where
  "z_string obj k = (case map_of obj k of Some (JString _) \<Rightarrow> [] | _ \<Rightarrow> [Invalid_type k])"

definition z_string_optional :: "jsobj \<Rightarrow> jsstring \<Rightarrow> zod_issue list" where
  "z_string_optional obj k =
     (case map_of obj k of
        None \<Rightarrow> [] | Some JUndefined \<Rightarrow> [] | Some (JString _) \<Rightarrow> []
      | _ \<Rightarrow> [Invalid_type k])"

definition ServerEnvSchema_keys :: "jsstring list" where
  "ServerEnvSchema_keys = [js ''PORT'', js ''TURBO_TOKEN'', js ''STORAGE_PROVIDER'', js ''STORAGE_PATH'']"

definition ServerEnvSchema_parse :: "jsobj \<Rightarrow> zod_issue list + jsobj" where
  "ServerEnvSchema_parse obj =
     (let issues = z_string obj (js ''PORT'') @ z_string obj (js ''TURBO_TOKEN'')
                   @ z_string_optional obj (js ''STORAGE_PROVIDER'')
                   @ z_string_optional obj (js ''STORAGE_PATH'')
      in if issues = []
         then Inr (List.map_filter (\<lambda>k. map_option (Pair k) (map_of obj k)) ServerEnvSchema_keys)
         else Inl issues)"

text \<open>The object literal \<open>serverEnvData\<close>; spreading the empty string adds nothing.\<close>

definition serverEnvData :: "nat \<Rightarrow> jsstring \<Rightarrow> jsstring \<Rightarrow> jsstring \<Rightarrow> jsobj" where
  "serverEnvData port token storageProvider storagePath =
     spread
       (spread [(js ''PORT'', JString (Number_toString port)), (js ''TURBO_TOKEN'', JString token)]
          (if storageProvider \<noteq> [] then [(js ''STORAGE_PROVIDER'', JString storageProvider)] else []))
       (if storagePath \<noteq> [] then [(js ''STORAGE_PATH'', JString storagePath)] else [])"

text \<open>\<open>{...process.env, ...validatedEnv}\<close>.\<close>

definition child_env :: "world \<Rightarrow> jsobj \<Rightarrow> jsobj" where
  "child_env w validatedEnv = spread (map (\<lambda>(k, v). (k, JString v)) (process_env w)) validatedEnv"

text \<open>\<open>`${serverProcess.pid}`\<close> and \<open>serverProcess.pid?.toString() ?? ''\<close>.\<close>

definition pid_template :: "nat option \<Rightarrow> jsstring" where
  "pid_template pid = (case pid of None \<Rightarrow> js ''undefined'' | Some n \<Rightarrow> Number_toString n)"

definition pid_state :: "nat option \<Rightarrow> jsstring" where
  "pid_state pid = (case pid of None \<Rightarrow> [] | Some n \<Rightarrow> Number_toString n)"

text \<open>\<open>if (cond) { core.info(s) }\<close>.\<close>

definition info_if :: "bool \<Rightarrow> jsstring \<Rightarrow> unit io" where
  "info_if b s = (if b then emit (Info s) else ret ())"

text \<open>
  The body of the \<open>try\<close> block of \<open>startCacheServer\<close>, statement by statement;
  \<open>teamId0\<close> and \<open>host0\<close> are the values \<open>core.getInput\<close> returns before the
  defaults apply.
\<close>

definition startCacheServer_try :: "world \<Rightarrow> unit io" where
  "startCacheServer_try w =
     bnd (call w (Mkdir (js ''logs'') True) ()) (\<lambda>_.
     bnd (call w GetPortPromise (free_port w)) (\<lambda>port.
     bnd (randomBytes w 32) (\<lambda>buf.
     let token = toString_hex buf in
     bnd (getInput w (js ''storage-provider'')) (\<lambda>storageProvider.
     bnd (getInput w (js ''storage-path'')) (\<lambda>storagePath.
     bnd (getInput w (js ''team-id'')) (\<lambda>teamId0.
     let teamId = or_else teamId0 (js ''ci'') in
     bnd (getInput w (js ''host'')) (\<lambda>host0.
     let host = or_else host0 (js ''http://127.0.0.1'');
         turboApi = host @ js '':'' @ Number_toString port in
     bnd (call w (ExportVariable (js ''TURBO_API'') turboApi) ()) (\<lambda>_.
     bnd (call w (ExportVariable (js ''TURBO_TOKEN'') token) ()) (\<lambda>_.
     bnd (call w (ExportVariable (js ''TURBO_TEAM'') teamId) ()) (\<lambda>_.
     bnd (case ServerEnvSchema_parse (serverEnvData port token storageProvider storagePath) of
            Inl issues \<Rightarrow> throw (Error (zod_message w issues))
          | Inr validatedEnv \<Rightarrow> ret validatedEnv) (\<lambda>validatedEnv.
     bnd (call w (Spawn (js ''npx'') [js ''turborepo-remote-cache''] True (js ''ignore'')
                    (child_env w validatedEnv)) (child_pid w)) (\<lambda>pid.
     bnd (call w Unref ()) (\<lambda>_.
     bnd (call w (WaitPort (js ''localhost'') port 30000) (port_open w)) (\<lambda>result_open.
     bnd (if \<not> result_open
          then throw (Error (js ''Port '' @ Number_toString port @ js '' did not open within 30 seconds''))
          else ret ()) (\<lambda>_.
     bnd (emit (Info (check_mark @ js '' Turborepo Remote Cache Server started''))) (\<lambda>_.
     bnd (emit (Info (js ''   PID: '' @ pid_template pid))) (\<lambda>_.
     bnd (emit (Info (js ''   Port: '' @ Number_toString port))) (\<lambda>_.
     bnd (emit (Info (js ''   API: '' @ turboApi))) (\<lambda>_.
     bnd (emit (Info (js ''   Team: '' @ teamId))) (\<lambda>_.
     bnd (info_if (storageProvider \<noteq> []) (js ''   Storage Provider: '' @ storageProvider)) (\<lambda>_.
     bnd (info_if (storagePath \<noteq> []) (js ''   Storage Path: '' @ storagePath)) (\<lambda>_.
     bnd (call w (SaveState (js ''serverPid'') (pid_state pid)) ()) (\<lambda>_.
     call w (SaveState (js ''serverPort'') (Number_toString port)) ()
     )))))))))))))))))))))))"

text \<open>\<open>startCacheServer\<close>: the block and its \<open>catch\<close>.\<close>

definition startCacheServer :: "world \<Rightarrow> unit io" where
  "startCacheServer w =
     try_catch (startCacheServer_try w)
       (\<lambda>error. emit (SetFailed (js ''Failed to start Turborepo Remote Cache Server: '' @ error_message error)))"

section \<open>cleanup-server.ts\<close>

text \<open>\<open>stopServer\<close>: the signal and the report of its outcome.\<close>

definition stopServer :: "world \<Rightarrow> jsstring \<Rightarrow> unit io" where
  "stopServer w serverPid =
     try_catch
       (bnd (call w (Kill (parseInt serverPid) (js ''SIGTERM'')) ()) (\<lambda>_.
        emit (Info (check_mark @ js '' Turborepo Remote Cache Server stopped (PID: '' @ serverPid @ js '')''))))
       (\<lambda>error. emit (Info (cross_mark @ js '' Failed to stop server process '' @ serverPid
                              @ js '': '' @ error_message error)))"

text \<open>\<open>logContent.split('\n').map((line) => `  ${line}`).join('\n')\<close>.\<close>

definition indentedContent :: "jsstring \<Rightarrow> jsstring" where
  "indentedContent logContent = join_nl (map (\<lambda>line. js ''  '' @ line) (split_nl logContent))"

text \<open>
  \<open>displayLogFile\<close> calls \<open>fs.readFile\<close> at once and runs the rest when the read
  has settled: \<open>displayLogFile_settled\<close> is that rest, inside the function's \<open>try\<close>.
\<close>

definition displayLogFile_settled :: "world \<Rightarrow> jsstring \<Rightarrow> unit io" where
  "displayLogFile_settled w logFile =
     try_catch
       (bnd (case fault w (ReadFile logFile (js ''utf8'')) of
               Some e \<Rightarrow> throw e | None \<Rightarrow> ret (file_content w logFile)) (\<lambda>logContent.
        if trim logContent \<noteq> []
        then bnd (emit (StartGroup (clipboard @ js '' '' @ logFile))) (\<lambda>_.
             bnd (emit (Info (indentedContent logContent))) (\<lambda>_.
             emit EndGroup))
        else ret ()))
       (\<lambda>error. emit (Debug (js ''Could not read log file '' @ logFile @ js '': '' @ error_message error)))"

definition logFiles :: "jsstring list" where
  "logFiles = [js ''logs/turborepo-remote-cache.log'', js ''logs/turborepo-remote-cache-error.log'']"

text \<open>
  \<open>Promise.all(logFiles.map(displayLogFile))\<close>: both reads are started in the order
  of the list, the rest of each \<open>displayLogFile\<close> runs in the order the reads
  settle, and the whole rejects with the first rejection.
\<close>

definition displayLogs :: "world \<Rightarrow> unit io" where
  "displayLogs w =
     (let started = map (\<lambda>f. ReadFile f (js ''utf8'')) logFiles;
          settled = map (displayLogFile_settled w)
                      (if second_settles_first w then rev logFiles else logFiles)
      in (started @ concat (map fst settled),
          case List.map_filter (\<lambda>r. case snd r of Inl e \<Rightarrow> Some e | Inr _ \<Rightarrow> None) settled of
            [] \<Rightarrow> Inr () | e # _ \<Rightarrow> Inl e))"

text \<open>\<open>cleanupCacheServer\<close>: the \<open>try\<close> block with its early return, and its \<open>catch\<close>.\<close>

definition cleanupCacheServer :: "world \<Rightarrow> unit io" where
  "cleanupCacheServer w =
     try_catch
       (bnd (getState w (js ''serverPid'')) (\<lambda>serverPid.
        if serverPid = []
        then emit (Info (cross_mark @ js '' Turborepo Remote Cache Server was not started or PID not found''))
        else bnd (stopServer w serverPid) (\<lambda>_. displayLogs w)))
       (\<lambda>error. emit (SetFailed (js ''Error in post action: '' @ error_message error)))"

section \<open>What a run shows\<close>

text \<open>The failure signals, the persisted handoff state and the termination signals of a trace.\<close>

definition failures :: "event list \<Rightarrow> jsstring list" where
  "failures tr = List.map_filter (\<lambda>e. case e of SetFailed m \<Rightarrow> Some m | _ \<Rightarrow> None) tr"

definition saved :: "event list \<Rightarrow> (jsstring \<times> jsstring) list" where
  "saved tr = List.map_filter (\<lambda>e. case e of SaveState k v \<Rightarrow> Some (k, v) | _ \<Rightarrow> None) tr"

definition kills :: "event list \<Rightarrow> (int option \<times> jsstring) list" where
  "kills tr = List.map_filter (\<lambda>e. case e of Kill p s \<Rightarrow> Some (p, s) | _ \<Rightarrow> None) tr"

text \<open>The inputs of a run as the launcher reads them, and what it derives from them.\<close>

definition storageProvider_of :: "world \<Rightarrow> jsstring" where
  "storageProvider_of w = lookup_or_empty (inputs w) (js ''storage-provider'')"

definition storagePath_of :: "world \<Rightarrow> jsstring" where
  "storagePath_of w = lookup_or_empty (inputs w) (js ''storage-path'')"

definition teamId_of :: "world \<Rightarrow> jsstring" where
  "teamId_of w = or_else (lookup_or_empty (inputs w) (js ''team-id'')) (js ''ci'')"

definition host_of :: "world \<Rightarrow> jsstring" where
  "host_of w = or_else (lookup_or_empty (inputs w) (js ''host'')) (js ''http://127.0.0.1'')"

definition token_of :: "world \<Rightarrow> jsstring" where
  "token_of w = toString_hex (map (entropy w) [0..<32])"

definition serverEnv_of :: "world \<Rightarrow> jsobj" where
  "serverEnv_of w = serverEnvData (free_port w) (token_of w) (storageProvider_of w) (storagePath_of w)"

subsection \<open>Example worlds\<close>

text \<open>
  The scenario of the integration test: S3 storage, team \<open>production\<close>, host
  \<open>http://localhost\<close>, port 4000, child pid 54321, nothing throws.
\<close>

definition world_s3 :: world where
  "world_s3 =
     \<lparr>fault = (\<lambda>_. None), free_port = 4000, entropy = (\<lambda>_. 0),
      inputs = [(js ''storage-provider'', js ''s3''), (js ''storage-path'', js ''my-bucket''),
                (js ''team-id'', js ''production''), (js ''host'', js ''http://localhost'')],
      process_env = [(js ''PATH'', js ''/usr/bin'')],
      child_pid = Some 54321, port_open = True, zod_message = (\<lambda>_. []),
      state_store = [(js ''serverPid'', js ''54321''), (js ''serverPort'', js ''4000'')],
      file_content = (\<lambda>_. []), second_settles_first = False\<rparr>"

text \<open>The same, but the spawned child has no pid.\<close>

definition world_pidless :: world where
  "world_pidless = world_s3\<lparr>child_pid := None\<rparr>"

text \<open>No inputs at all, port 3000; the port never opens.\<close>

definition world_timeout :: world where
  "world_timeout =
     \<lparr>fault = (\<lambda>_. None), free_port = 3000, entropy = (\<lambda>_. 0),
      inputs = [], process_env = [], child_pid = Some 12345, port_open = False,
      zod_message = (\<lambda>_. []), state_store = [],
      file_content = (\<lambda>_. []), second_settles_first = False\<rparr>"

text \<open>The port allocator throws \<open>new Error('No ports available')\<close>.\<close>

definition world_no_port :: world where
  "world_no_port =
     \<lparr>fault = (\<lambda>ev. if ev = GetPortPromise then Some (Error (js ''No ports available'')) else None),
      free_port = 0, entropy = (\<lambda>_. 0),
      inputs = [], process_env = [], child_pid = None, port_open = False,
      zod_message = (\<lambda>_. []), state_store = [],
      file_content = (\<lambda>_. []), second_settles_first = False\<rparr>"

text \<open>
  No inputs, but the job's environment already sets \<open>STORAGE_PROVIDER\<close>, as a
  workflow does with an \<open>env:\<close> block.
\<close>

definition world_ambient :: world where
  "world_ambient =
     \<lparr>fault = (\<lambda>_. None), free_port = 3000, entropy = (\<lambda>_. 0),
      inputs = [], process_env = [(js ''STORAGE_PROVIDER'', js ''s3'')],
      child_pid = Some 12345, port_open = True,
      zod_message = (\<lambda>_. []), state_store = [],
      file_content = (\<lambda>_. []), second_settles_first = False\<rparr>"

text \<open>
  The cleanup scenario of the unit tests: persisted pid \<open>12345\<close>, the signal throws
  \<open>new Error('Process not found')\<close>, both logs hold three lines.
\<close>

definition three_lines :: jsstring where
  "three_lines = js ''Line 1'' @ [NL] @ js ''Line 2'' @ [NL] @ js ''Line 3''"

definition world_kill_fails :: world where
  "world_kill_fails =
     \<lparr>fault = (\<lambda>ev. case ev of Kill _ _ \<Rightarrow> Some (Error (js ''Process not found'')) | _ \<Rightarrow> None),
      free_port = 3000, entropy = (\<lambda>_. 0),
      inputs = [], process_env = [], child_pid = None, port_open = False,
      zod_message = (\<lambda>_. []), state_store = [(js ''serverPid'', js ''12345'')],
      file_content = (\<lambda>_. three_lines), second_settles_first = False\<rparr>"

text \<open>The cleanup after a launch that saved nothing.\<close>

definition world_no_pid :: world where
  "world_no_pid =
     \<lparr>fault = (\<lambda>_. None), free_port = 3000, entropy = (\<lambda>_. 0),
      inputs = [], process_env = [], child_pid = None, port_open = False,
      zod_message = (\<lambda>_. []), state_store = [],
      file_content = (\<lambda>_. []), second_settles_first = False\<rparr>"


section \<open>Strings and numbers\<close>

lemma of_char_word16_eq_iff: "(of_char c :: 16 word) = of_char d \<longleftrightarrow> c = d"
proof
  assume "(of_char c :: 16 word) = of_char d"
  then have "(of_nat (of_char c) :: 16 word) = of_nat (of_char d)"
    by (simp add: of_nat_of_char)
  then have "take_bit 16 (of_char c :: nat) = take_bit 16 (of_char d :: nat)"
    by (simp add: word_of_nat_eq_iff)
  moreover have "(of_char x :: nat) < 2 ^ 16" for x
    by (rule less_trans [OF nat_of_char_less_256]) simp
  ultimately have "(of_char c :: nat) = of_char d"
    by (simp add: take_bit_nat_eq_self)
  then show "c = d" by simp
qed simp

lemma js_eq_iff: "js a = js b \<longleftrightarrow> a = b"
  unfolding js_def by (simp add: inj_map_eq_map inj_on_def of_char_word16_eq_iff)

lemma js_Nil_iff: "js a = [] \<longleftrightarrow> a = []" "[] = js a \<longleftrightarrow> a = []"
  by (auto simp: js_def)

lemma js_append: "js a @ js b = js (a @ b)" "js a @ js b @ r = js (a @ b) @ r"
  by (simp_all add: js_def)

lemma js_simps: "js [] = []" "js (c # cs) = of_char c # js cs"
  by (simp_all add: js_def)

lemma Number_toString_not_Nil: "Number_toString n \<noteq> []"
  by (subst Number_toString.simps) simp

text \<open>The string of a number is its decimal numeral: reading its digits in base 10 gives the number back.\<close>

lemma unat_digit_char:
  assumes "d < 10"
  shows "unat (digit_char d) = 48 + d"
proof -
  have "unat (of_nat (48 + d) :: 16 word) = (48 + d) mod 2 ^ LENGTH(16)"
    by (rule unat_of_nat)
  with assms show ?thesis
    unfolding digit_char_def by simp
qed

lemma digit_val_digit_char: "d < 10 \<Longrightarrow> digit_val (digit_char d) = Some d"
  by (simp add: digit_val_def word_le_nat_alt unat_digit_char)

lemma Number_toString_digits:
  "(\<forall>c \<in> set (Number_toString n). is_digit_in 10 c) \<and>
   foldl (\<lambda>acc c. acc * 10 + (case digit_val c of Some d \<Rightarrow> d | None \<Rightarrow> 0)) 0 (Number_toString n) = n"
proof (induction n rule: Number_toString.induct)
  case (1 n)
  show ?case
  proof (cases "n < 10")
    case True
    then show ?thesis
      by (subst (1 2) Number_toString.simps) (simp add: is_digit_in_def digit_val_digit_char)
  next
    case False
    with 1 show ?thesis
      by (subst (1 2) Number_toString.simps) (simp add: is_digit_in_def digit_val_digit_char)
  qed
qed

lemma parse_digits_Number_toString: "parse_digits 10 (Number_toString n) = Some (int n)"
proof -
  have tw: "takeWhile (is_digit_in 10) (Number_toString n) = Number_toString n"
    using Number_toString_digits [of n] by (simp add: takeWhile_eq_all_conv)
  show ?thesis
    unfolding parse_digits_def Let_def tw
    using Number_toString_digits [of n] by (simp add: Number_toString_not_Nil)
qed

lemma Number_toString_3000: "Number_toString 3000 = js ''3000''"
  by (simp add: Number_toString.simps digit_char_def js_def)

lemma Number_toString_4000: "Number_toString 4000 = js ''4000''"
  by (simp add: Number_toString.simps digit_char_def js_def)

lemma Number_toString_54321: "Number_toString 54321 = js ''54321''"
  by (simp add: Number_toString.simps digit_char_def js_def)

lemma parseInt_12345: "parseInt (js ''12345'') = Some 12345"
  by code_simp

section \<open>Lines\<close>

lemma split_nl_not_Nil: "split_nl s \<noteq> []"
  by (induction s) (auto split: list.splits)

lemma split_nl_line: "NL \<notin> set l \<Longrightarrow> split_nl (l @ NL # s) = l # split_nl s"
  by (induction l) auto

lemma split_nl_single: "NL \<notin> set l \<Longrightarrow> split_nl l = [l]"
  by (induction l) auto

lemma split_nl_no_NL: "l \<in> set (split_nl s) \<Longrightarrow> NL \<notin> set l"
proof (induction s arbitrary: l)
  case Nil
  then show ?case by simp
next
  case (Cons c s)
  then show ?case
    by (cases "split_nl s") (auto split: if_splits)
qed

lemma join_nl_Cons_Cons: "join_nl ((c # l) # ls) = c # join_nl (l # ls)"
  by (cases ls) simp_all

lemma join_split_nl: "join_nl (split_nl s) = s"
proof (induction s)
  case Nil
  show ?case by simp
next
  case (Cons c s)
  show ?case
  proof (cases "c = NL")
    case True
    with Cons show ?thesis
      by (cases "split_nl s") (simp_all add: split_nl_not_Nil)
  next
    case False
    with Cons show ?thesis
      by (cases "split_nl s") (simp_all add: split_nl_not_Nil join_nl_Cons_Cons)
  qed
qed

lemma split_join_nl:
  "ls \<noteq> [] \<Longrightarrow> (\<And>l. l \<in> set ls \<Longrightarrow> NL \<notin> set l) \<Longrightarrow> split_nl (join_nl ls) = ls"
proof (induction ls rule: join_nl.induct)
  case 1
  then show ?case by simp
next
  case (2 l)
  then show ?case by (simp add: split_nl_single)
next
  case (3 l v va)
  then show ?case by (simp add: split_nl_line)
qed

lemma two_spaces_no_NL: "NL \<notin> set (js ''  '')"
  by (simp add: js_def NL_def)

lemma split_nl_indentedContent:
  "split_nl (indentedContent c) = map (\<lambda>line. js ''  '' @ line) (split_nl c)"
  unfolding indentedContent_def
  by (rule split_join_nl) (auto simp: split_nl_not_Nil two_spaces_no_NL dest: split_nl_no_NL)

lemma split_nl_three_lines: "split_nl three_lines = [js ''Line 1'', js ''Line 2'', js ''Line 3'']"
proof -
  have n: "NL \<notin> set (js ''Line 1'')" "NL \<notin> set (js ''Line 2'')" "NL \<notin> set (js ''Line 3'')"
    by (simp_all add: js_def NL_def)
  show ?thesis
    by (simp add: three_lines_def split_nl_line split_nl_single n)
qed

lemma indentedContent_three_lines:
  "indentedContent three_lines = js ''  Line 1'' @ [NL] @ js ''  Line 2'' @ [NL] @ js ''  Line 3''"
  by (simp add: indentedContent_def split_nl_three_lines js_append)

lemma trim_three_lines: "trim three_lines \<noteq> []"
proof -
  have "\<not> is_space (of_char CHR ''L'')"
    by (simp add: is_space_def)
  then show ?thesis
    by (simp add: trim_def three_lines_def js_simps)
qed

section \<open>Tokens\<close>

lemma length_toString_hex: "length (toString_hex buf) = 2 * length buf"
  by (induction buf) (simp_all add: toString_hex_def hex_byte_def)

lemma length_hex_digits: "length hex_digits = 16"
  by (simp add: hex_digits_def js_def)

lemma set_hex_byte: "set (hex_byte b) \<subseteq> set hex_digits"
proof -
  have "unat b div 16 < 16"
    using unsigned_less [of b, where 'a = nat] by (simp add: less_mult_imp_div_less)
  moreover have "unat b mod 16 < 16" by simp
  ultimately show ?thesis
    by (simp add: hex_byte_def length_hex_digits)
qed

lemma set_toString_hex: "set (toString_hex buf) \<subseteq> set hex_digits"
  using set_hex_byte by (auto simp: toString_hex_def)

section \<open>Objects and the schema\<close>

lemma map_of_assign: "map_of (assign k v ps) = (map_of ps)(k \<mapsto> v)"
  by (induction ps) (auto simp: fun_eq_iff)

lemma map_of_spread: "map_of (spread a b) = map_of a ++ map_of (rev b)"
  unfolding spread_def
proof (induction b arbitrary: a)
  case Nil
  show ?case by simp
next
  case (Cons kv b)
  obtain k v where kv: "kv = (k, v)" by (cases kv)
  show ?case
    by (simp add: kv Cons.IH map_of_assign fun_eq_iff map_add_def split: option.splits)
qed

lemma map_of_serverEnvData:
  "map_of (serverEnvData p t sp spath) k =
     (if k = js ''STORAGE_PATH'' \<and> spath \<noteq> [] then Some (JString spath)
      else if k = js ''STORAGE_PROVIDER'' \<and> sp \<noteq> [] then Some (JString sp)
      else if k = js ''PORT'' then Some (JString (Number_toString p))
      else if k = js ''TURBO_TOKEN'' then Some (JString t)
      else None)"
  by (simp add: serverEnvData_def map_of_spread map_add_def js_eq_iff)

lemma map_of_lifted_env:
  "map_of (map (\<lambda>(k, v). (k, JString v)) penv) k = map_option JString (map_of penv k)"
  by (induction penv) auto

lemma parse_serverEnvData:
  "ServerEnvSchema_parse (serverEnvData p t sp spath) = Inr (serverEnvData p t sp spath)"
  by (simp add: ServerEnvSchema_parse_def serverEnvData_def spread_def z_string_def
      z_string_optional_def ServerEnvSchema_keys_def List.map_filter_simps js_eq_iff)

lemma map_of_child_env:
  "map_of (child_env w (serverEnv_of w)) k =
     (case map_of (serverEnv_of w) k of
        Some v \<Rightarrow> Some v
      | None \<Rightarrow> map_option JString (map_of (process_env w) k))"
proof -
  have d: "distinct (map fst (serverEnvData p t sp spath))" for p t sp spath
    by (simp add: serverEnvData_def spread_def js_eq_iff)
  have "map_of (rev xs) = map_of xs" if "distinct (map fst xs)" for xs :: jsobj
  proof -
    have "distinct (map fst (rev xs))"
      unfolding rev_map [symmetric] distinct_rev by (rule that)
    with that show ?thesis
      by (simp add: map_of_inject_set)
  qed
  then have "map_of (rev (serverEnv_of w)) = map_of (serverEnv_of w)"
    unfolding serverEnv_of_def using d by blast
  then show ?thesis
    by (simp add: child_env_def map_of_spread map_add_def map_of_lifted_env split: option.splits)
qed

section \<open>Running a computation\<close>

lemma fst_bnd: "fst (bnd m f) = fst m @ (case snd m of Inl e \<Rightarrow> [] | Inr a \<Rightarrow> fst (f a))"
  by (cases m) (auto simp: bnd_def split: sum.splits prod.splits)

lemma snd_bnd: "snd (bnd m f) = (case snd m of Inl e \<Rightarrow> Inl e | Inr a \<Rightarrow> snd (f a))"
  by (cases m) (auto simp: bnd_def split: sum.splits prod.splits)

lemma fst_bnd_call:
  "fst (bnd (call w ev a) f) = ev # (case fault w ev of None \<Rightarrow> fst (f a) | Some e \<Rightarrow> [])"
  by (simp add: fst_bnd call_def split: option.splits)

lemma snd_bnd_call:
  "snd (bnd (call w ev a) f) = (case fault w ev of None \<Rightarrow> snd (f a) | Some e \<Rightarrow> Inl e)"
  by (simp add: snd_bnd call_def split: option.splits)

lemma fst_call: "fst (call w ev a) = [ev]"
  by (simp add: call_def)

lemma snd_call: "snd (call w ev a) = (case fault w ev of None \<Rightarrow> Inr a | Some e \<Rightarrow> Inl e)"
  by (simp add: call_def)

lemma fst_bnd_emit: "fst (bnd (emit ev) f) = ev # fst (f ())"
  by (simp add: fst_bnd emit_def)

lemma snd_bnd_emit: "snd (bnd (emit ev) f) = snd (f ())"
  by (simp add: snd_bnd emit_def)

lemma fst_emit: "fst (emit ev) = [ev]"
  by (simp add: emit_def)

lemma snd_emit: "snd (emit ev) = Inr ()"
  by (simp add: emit_def)

lemma bnd_ret: "bnd (ret a) f = f a"
  by (simp add: bnd_def ret_def split: prod.splits)

lemma fst_ret: "fst (ret a) = []" and snd_ret: "snd (ret a) = Inr a"
  by (simp_all add: ret_def)

lemma fst_bnd_throw: "fst (bnd (throw e) f) = []"
  by (simp add: bnd_def throw_def)

lemma snd_bnd_throw: "snd (bnd (throw e) f) = Inl e"
  by (simp add: bnd_def throw_def)

lemma fst_bnd_info_if: "fst (bnd (info_if b s) f) = (if b then Info s # fst (f ()) else fst (f ()))"
  by (simp add: info_if_def fst_bnd_emit bnd_ret)

lemma snd_bnd_info_if: "snd (bnd (info_if b s) f) = snd (f ())"
  by (simp add: info_if_def snd_bnd_emit bnd_ret)

lemma fst_bnd_guard: "fst (bnd (if c then throw e else ret ()) f) = (if c then [] else fst (f ()))"
  by (simp add: fst_bnd_throw bnd_ret)

lemma snd_bnd_guard: "snd (bnd (if c then throw e else ret ()) f) = (if c then Inl e else snd (f ()))"
  by (simp add: snd_bnd_throw bnd_ret)

lemmas run_simps = fst_bnd_call snd_bnd_call fst_call snd_call fst_bnd_emit snd_bnd_emit
  fst_emit snd_emit bnd_ret fst_bnd_throw snd_bnd_throw fst_bnd_info_if snd_bnd_info_if
  fst_bnd_guard snd_bnd_guard

lemma try_catch_emit:
  "try_catch m (\<lambda>e. emit (g e)) =
     (fst m @ (case snd m of Inl e \<Rightarrow> [g e] | Inr a \<Rightarrow> []), Inr (case snd m of Inl e \<Rightarrow> () | Inr a \<Rightarrow> a))"
  by (cases m) (simp add: try_catch_def emit_def split: sum.splits)

lemma mem_case_fault:
  "x \<in> set (case opt of None \<Rightarrow> A | Some e \<Rightarrow> []) \<longleftrightarrow> opt = None \<and> x \<in> set A"
  by (cases opt) auto

lemma mem_if:
  "x \<in> set (if c then A else B) \<longleftrightarrow> (c \<and> x \<in> set A) \<or> (\<not> c \<and> x \<in> set B)"
  by simp

lemmas mem_simps = mem_case_fault mem_if js_eq_iff

lemma ok_case_fault:
  "(case opt of None \<Rightarrow> r | Some e \<Rightarrow> Inl e) = Inr v \<longleftrightarrow> opt = None \<and> r = Inr v"
  by (cases opt) auto

lemma ok_guard: "(if c then Inl e else r) = Inr v \<longleftrightarrow> \<not> c \<and> r = Inr v"
  by simp

subsection \<open>Observations of a trace\<close>

lemma failures_simps:
  "failures [] = []"
  "failures (ev # tr) = (case ev of SetFailed m \<Rightarrow> m # failures tr | _ \<Rightarrow> failures tr)"
  "failures (a @ b) = failures a @ failures b"
  by (simp_all add: failures_def map_filter_def split: event.splits)

lemma saved_simps:
  "saved [] = []"
  "saved (ev # tr) = (case ev of SaveState k v \<Rightarrow> (k, v) # saved tr | _ \<Rightarrow> saved tr)"
  "saved (a @ b) = saved a @ saved b"
  by (simp_all add: saved_def map_filter_def split: event.splits)

lemma kills_simps:
  "kills [] = []"
  "kills (ev # tr) = (case ev of Kill p s \<Rightarrow> (p, s) # kills tr | _ \<Rightarrow> kills tr)"
  "kills (a @ b) = kills a @ kills b"
  by (simp_all add: kills_def map_filter_def split: event.splits)

lemma obs_case_fault:
  "failures (case opt of None \<Rightarrow> A | Some e \<Rightarrow> []) = (case opt of None \<Rightarrow> failures A | Some e \<Rightarrow> [])"
  "saved (case opt of None \<Rightarrow> A | Some e \<Rightarrow> []) = (case opt of None \<Rightarrow> saved A | Some e \<Rightarrow> [])"
  "kills (case opt of None \<Rightarrow> A | Some e \<Rightarrow> []) = (case opt of None \<Rightarrow> kills A | Some e \<Rightarrow> [])"
  by (simp_all add: failures_simps saved_simps kills_simps split: option.splits)

lemma obs_if:
  "failures (if c then A else B) = (if c then failures A else failures B)"
  "saved (if c then A else B) = (if c then saved A else saved B)"
  "kills (if c then A else B) = (if c then kills A else kills B)"
  by simp_all

lemma case_fault_Nil:
  "(case opt of None \<Rightarrow> A | Some e \<Rightarrow> []) = [] \<longleftrightarrow> (opt = None \<longrightarrow> A = [])"
  by (cases opt) auto

section \<open>The launch phase\<close>

lemmas launch_defs = startCacheServer_try_def randomBytes_def getInput_def Let_def

lemma try_no_failures: "failures (fst (startCacheServer_try w)) = []"
  unfolding launch_defs
  by (simp add: run_simps parse_serverEnvData failures_simps obs_case_fault obs_if case_fault_Nil)

lemma fst_startCacheServer:
  "fst (startCacheServer w) =
     fst (startCacheServer_try w) @
     (case snd (startCacheServer_try w) of
        Inl e \<Rightarrow> [SetFailed (js ''Failed to start Turborepo Remote Cache Server: '' @ error_message e)]
      | Inr _ \<Rightarrow> [])"
  by (cases "startCacheServer_try w")
     (simp add: startCacheServer_def try_catch_def emit_def split: sum.splits)

lemma snd_startCacheServer: "snd (startCacheServer w) = Inr ()"
  by (cases "startCacheServer_try w")
     (simp add: startCacheServer_def try_catch_def emit_def split: sum.splits)

lemma mem_fst_startCacheServer:
  "ev \<in> set (fst (startCacheServer w)) \<longleftrightarrow>
     ev \<in> set (fst (startCacheServer_try w)) \<or>
     (\<exists>e. snd (startCacheServer_try w) = Inl e \<and>
          ev = SetFailed (js ''Failed to start Turborepo Remote Cache Server: '' @ error_message e))"
  by (cases "snd (startCacheServer_try w)") (auto simp: fst_startCacheServer)

lemma try_timeout_result:
  assumes "WaitPort (js ''localhost'') (free_port w) 30000 \<in> set (fst (startCacheServer_try w))"
      and "fault w (WaitPort (js ''localhost'') (free_port w) 30000) = None"
      and "\<not> port_open w"
  shows "snd (startCacheServer_try w) =
           Inl (Error (js ''Port '' @ Number_toString (free_port w) @ js '' did not open within 30 seconds''))"
  using assms unfolding launch_defs
  by (simp add: run_simps mem_case_fault parse_serverEnvData)

lemma try_closed_saves_nothing:
  "\<not> port_open w \<Longrightarrow> saved (fst (startCacheServer_try w)) = []"
  unfolding launch_defs
  by (simp add: run_simps parse_serverEnvData saved_simps obs_case_fault obs_if case_fault_Nil)

lemma try_success_trace:
  assumes "snd (startCacheServer_try w) = Inr ()"
  shows "port_open w"
    and "fst (startCacheServer_try w) =
      [Mkdir (js ''logs'') True, GetPortPromise, RandomBytes 32,
       GetInput (js ''storage-provider''), GetInput (js ''storage-path''),
       GetInput (js ''team-id''), GetInput (js ''host''),
       ExportVariable (js ''TURBO_API'') (host_of w @ js '':'' @ Number_toString (free_port w)),
       ExportVariable (js ''TURBO_TOKEN'') (token_of w),
       ExportVariable (js ''TURBO_TEAM'') (teamId_of w),
       Spawn (js ''npx'') [js ''turborepo-remote-cache''] True (js ''ignore'')
         (child_env w (serverEnv_of w)),
       Unref, WaitPort (js ''localhost'') (free_port w) 30000,
       Info (check_mark @ js '' Turborepo Remote Cache Server started''),
       Info (js ''   PID: '' @ pid_template (child_pid w)),
       Info (js ''   Port: '' @ Number_toString (free_port w)),
       Info (js ''   API: '' @ host_of w @ js '':'' @ Number_toString (free_port w)),
       Info (js ''   Team: '' @ teamId_of w)] @
      (if storageProvider_of w \<noteq> [] then [Info (js ''   Storage Provider: '' @ storageProvider_of w)] else []) @
      (if storagePath_of w \<noteq> [] then [Info (js ''   Storage Path: '' @ storagePath_of w)] else []) @
      [SaveState (js ''serverPid'') (pid_state (child_pid w)),
       SaveState (js ''serverPort'') (Number_toString (free_port w))]"
  using assms unfolding launch_defs
  by (simp_all add: run_simps ok_case_fault ok_guard parse_serverEnvData
      host_of_def teamId_of_def token_of_def serverEnv_of_def storageProvider_of_def storagePath_of_def)

lemma try_exports:
  "ExportVariable k v \<in> set (fst (startCacheServer_try w)) \<Longrightarrow>
     (k = js ''TURBO_API'' \<and> v = host_of w @ js '':'' @ Number_toString (free_port w)) \<or>
     (k = js ''TURBO_TOKEN'' \<and> v = token_of w) \<or>
     (k = js ''TURBO_TEAM'' \<and> v = teamId_of w)"
  unfolding launch_defs
  by (simp add: run_simps parse_serverEnvData mem_simps host_of_def teamId_of_def token_of_def)
    blast

lemma try_unref_exports:
  assumes "Unref \<in> set (fst (startCacheServer_try w))"
  shows "ExportVariable (js ''TURBO_API'') (host_of w @ js '':'' @ Number_toString (free_port w))
           \<in> set (fst (startCacheServer_try w))"
    and "ExportVariable (js ''TURBO_TOKEN'') (token_of w) \<in> set (fst (startCacheServer_try w))"
    and "ExportVariable (js ''TURBO_TEAM'') (teamId_of w) \<in> set (fst (startCacheServer_try w))"
  using assms unfolding launch_defs
  by (simp_all add: run_simps parse_serverEnvData mem_simps host_of_def teamId_of_def token_of_def)

lemma try_spawn_env:
  "Spawn c a d s env \<in> set (fst (startCacheServer_try w)) \<Longrightarrow> env = child_env w (serverEnv_of w)"
  unfolding launch_defs
  by (simp add: run_simps parse_serverEnvData mem_simps serverEnv_of_def token_of_def
      storageProvider_of_def storagePath_of_def)

lemma inputs_only_through_lookup:
  assumes "\<And>k. lookup_or_empty ins k = lookup_or_empty (inputs w) k"
  shows "startCacheServer (w\<lparr>inputs := ins\<rparr>) = startCacheServer w"
proof -
  have "startCacheServer_try (w\<lparr>inputs := ins\<rparr>) = startCacheServer_try w"
    unfolding launch_defs
    by (simp add: assms parse_serverEnvData call_def child_env_def)
  then show ?thesis
    by (simp add: startCacheServer_def)
qed

subsection \<open>The example runs\<close>

lemma world_s3_simps:
  "fault world_s3 ev = None" "free_port world_s3 = 4000" "port_open world_s3"
  "child_pid world_s3 = Some 54321"
  "host_of world_s3 = js ''http://localhost''" "teamId_of world_s3 = js ''production''"
  "storageProvider_of world_s3 = js ''s3''" "storagePath_of world_s3 = js ''my-bucket''"
  by (simp_all add: world_s3_def host_of_def teamId_of_def storageProvider_of_def
      storagePath_of_def lookup_or_empty_def or_else_def js_eq_iff js_Nil_iff)

lemma world_s3_success: "snd (startCacheServer_try world_s3) = Inr ()"
  unfolding launch_defs
  by (simp add: run_simps parse_serverEnvData world_s3_simps)

lemma world_s3_unref: "Unref \<in> set (fst (startCacheServer world_s3))"
  by (simp add: mem_fst_startCacheServer try_success_trace(2) [OF world_s3_success])

lemma token_of_world_s3:
  "token_of world_s3 = js ''0000000000000000000000000000000000000000000000000000000000000000''"
  by (simp add: token_of_def world_s3_def toString_hex_def hex_byte_def hex_digits_def js_def upt_rec)

lemma world_pidless_simps:
  "fault world_pidless ev = None" "free_port world_pidless = 4000" "port_open world_pidless"
  "child_pid world_pidless = None"
  by (simp_all add: world_pidless_def world_s3_def)

lemma world_pidless_success: "snd (startCacheServer_try world_pidless) = Inr ()"
  unfolding launch_defs
  by (simp add: run_simps parse_serverEnvData world_pidless_simps)

lemma world_timeout_simps:
  "fault world_timeout ev = None" "free_port world_timeout = 3000" "\<not> port_open world_timeout"
  "host_of world_timeout = js ''http://127.0.0.1''" "teamId_of world_timeout = js ''ci''"
  by (simp_all add: world_timeout_def host_of_def teamId_of_def lookup_or_empty_def or_else_def)

lemma world_timeout_reaches_poll:
  "Unref \<in> set (fst (startCacheServer world_timeout))"
  "WaitPort (js ''localhost'') (free_port world_timeout) 30000
     \<in> set (fst (startCacheServer world_timeout))"
  unfolding mem_fst_startCacheServer launch_defs
  by (simp_all add: run_simps parse_serverEnvData world_timeout_simps)

lemma world_ambient_simps:
  "fault world_ambient ev = None" "free_port world_ambient = 3000" "port_open world_ambient"
  "storageProvider_of world_ambient = []" "storagePath_of world_ambient = []"
  "process_env world_ambient = [(js ''STORAGE_PROVIDER'', js ''s3'')]"
  "inputs world_ambient = []"
  by (simp_all add: world_ambient_def storageProvider_of_def storagePath_of_def lookup_or_empty_def)

lemma world_ambient_success: "snd (startCacheServer_try world_ambient) = Inr ()"
  unfolding launch_defs
  by (simp add: run_simps parse_serverEnvData world_ambient_simps)

lemma world_ambient_spawn:
  "Spawn (js ''npx'') [js ''turborepo-remote-cache''] True (js ''ignore'')
     (child_env world_ambient (serverEnv_of world_ambient))
   \<in> set (fst (startCacheServer world_ambient))"
  by (simp add: mem_fst_startCacheServer try_success_trace(2) [OF world_ambient_success])

lemma child_env_world_ambient:
  "child_env world_ambient (serverEnv_of world_ambient) =
     [(js ''STORAGE_PROVIDER'', JString (js ''s3'')),
      (js ''PORT'', JString (js ''3000'')),
      (js ''TURBO_TOKEN'', JString (token_of world_ambient))]"
  by (simp add: child_env_def serverEnv_of_def serverEnvData_def spread_def world_ambient_simps
      Number_toString_3000 js_eq_iff)

subsection \<open>Readiness timeout\<close>

text \<open>
  Claim C1. When the readiness poll is made, returns, and reports the port closed,
  the launch phase ends normally with exactly one failure signal,
  \<open>Failed to start Turborepo Remote Cache Server: Port {port} did not open within 30 seconds\<close>
  with the decimal port number, and \<open>core.saveState\<close> is never called: neither
  \<open>serverPid\<close> nor \<open>serverPort\<close> is persisted.
\<close>

theorem timeout_reports_failure_and_saves_nothing:
  assumes "WaitPort (js ''localhost'') (free_port w) 30000 \<in> set (fst (startCacheServer w))"
      and "fault w (WaitPort (js ''localhost'') (free_port w) 30000) = None"
      and "\<not> port_open w"
  shows "snd (startCacheServer w) = Inr () \<and>
         failures (fst (startCacheServer w)) =
           [js ''Failed to start Turborepo Remote Cache Server: '' @
            js ''Port '' @ Number_toString (free_port w) @ js '' did not open within 30 seconds''] \<and>
         saved (fst (startCacheServer w)) = []"
proof -
  from assms(1) have reached:
    "WaitPort (js ''localhost'') (free_port w) 30000 \<in> set (fst (startCacheServer_try w))"
    by (simp add: mem_fst_startCacheServer)
  have res: "snd (startCacheServer_try w) =
      Inl (Error (js ''Port '' @ Number_toString (free_port w) @ js '' did not open within 30 seconds''))"
    by (rule try_timeout_result [OF reached assms(2) assms(3)])
  show ?thesis
    by (simp add: snd_startCacheServer fst_startCacheServer res failures_simps saved_simps
        try_no_failures try_closed_saves_nothing [OF assms(3)])
qed

theorem timeout_reports_failure_and_saves_nothing_witness:
  "WaitPort (js ''localhost'') 3000 30000 \<in> set (fst (startCacheServer world_timeout)) \<and>
   snd (startCacheServer world_timeout) = Inr () \<and>
   failures (fst (startCacheServer world_timeout)) =
     [js ''Failed to start Turborepo Remote Cache Server: Port 3000 did not open within 30 seconds''] \<and>
   saved (fst (startCacheServer world_timeout)) = []"
  using timeout_reports_failure_and_saves_nothing
      [OF world_timeout_reaches_poll(2) world_timeout_simps(1) world_timeout_simps(3)]
    world_timeout_reaches_poll(2)
  by (simp add: world_timeout_simps Number_toString_3000 js_append)

subsection \<open>Exceptions\<close>

text \<open>
  Claim C2. Whatever is thrown inside the \<open>try\<close> block of the launch phase (by the
  directory creation, the port allocation, the random source, an input read, a
  variable export, the spawn, the readiness poll or its timeout, a state write),
  \<open>startCacheServer\<close> itself returns normally, and its trace is the trace of the
  block followed by one \<open>core.setFailed\<close> whose message is
  \<open>Failed to start Turborepo Remote Cache Server: \<close> followed by the message of
  what was thrown; that is the only failure signal of the run.
\<close>

theorem launch_exception_becomes_one_failure:
  assumes "snd (startCacheServer_try w) = Inl e"
  shows "snd (startCacheServer w) = Inr () \<and>
         fst (startCacheServer w) =
           fst (startCacheServer_try w) @
           [SetFailed (js ''Failed to start Turborepo Remote Cache Server: '' @ error_message e)] \<and>
         failures (fst (startCacheServer w)) =
           [js ''Failed to start Turborepo Remote Cache Server: '' @ error_message e]"
  by (simp add: snd_startCacheServer fst_startCacheServer assms failures_simps try_no_failures)

theorem launch_exception_becomes_one_failure_witness:
  "snd (startCacheServer_try world_no_port) = Inl (Error (js ''No ports available'')) \<and>
   snd (startCacheServer world_no_port) = Inr () \<and>
   fst (startCacheServer world_no_port) =
     [Mkdir (js ''logs'') True, GetPortPromise,
      SetFailed (js ''Failed to start Turborepo Remote Cache Server: No ports available'')] \<and>
   failures (fst (startCacheServer world_no_port)) =
     [js ''Failed to start Turborepo Remote Cache Server: No ports available'']"
proof -
  have f: "fault world_no_port (Mkdir (js ''logs'') True) = None"
    "fault world_no_port GetPortPromise = Some (Error (js ''No ports available''))"
    by (simp_all add: world_no_port_def)
  have r: "snd (startCacheServer_try world_no_port) = Inl (Error (js ''No ports available''))"
    unfolding launch_defs by (simp add: run_simps f)
  have t: "fst (startCacheServer_try world_no_port) = [Mkdir (js ''logs'') True, GetPortPromise]"
    unfolding launch_defs by (simp add: run_simps f)
  show ?thesis
    using launch_exception_becomes_one_failure [OF r] r t
    by (simp add: js_append failures_simps)
qed

subsection \<open>Published variables\<close>

text \<open>
  Claim C3. In every run of the launch phase, a published \<open>TURBO_API\<close> is exactly
  the host input (\<open>http://127.0.0.1\<close> when empty or absent), a colon and the
  decimal port, with nothing added, and a published \<open>TURBO_TEAM\<close> is exactly the
  team-id input (\<open>ci\<close> when empty or absent); and every run that gets as far as
  the spawned child has published both.
\<close>

theorem published_api_and_team:
  "(\<forall>v. ExportVariable (js ''TURBO_API'') v \<in> set (fst (startCacheServer w)) \<longrightarrow>
        v = host_of w @ js '':'' @ Number_toString (free_port w)) \<and>
   (\<forall>v. ExportVariable (js ''TURBO_TEAM'') v \<in> set (fst (startCacheServer w)) \<longrightarrow>
        v = teamId_of w) \<and>
   (Unref \<in> set (fst (startCacheServer w)) \<longrightarrow>
      ExportVariable (js ''TURBO_API'') (host_of w @ js '':'' @ Number_toString (free_port w))
        \<in> set (fst (startCacheServer w)) \<and>
      ExportVariable (js ''TURBO_TEAM'') (teamId_of w) \<in> set (fst (startCacheServer w)))"
proof (intro conjI allI impI)
  fix v assume "ExportVariable (js ''TURBO_API'') v \<in> set (fst (startCacheServer w))"
  then have "ExportVariable (js ''TURBO_API'') v \<in> set (fst (startCacheServer_try w))"
    by (simp add: mem_fst_startCacheServer)
  from try_exports [OF this] show "v = host_of w @ js '':'' @ Number_toString (free_port w)"
    by (simp add: js_eq_iff)
next
  fix v assume "ExportVariable (js ''TURBO_TEAM'') v \<in> set (fst (startCacheServer w))"
  then have "ExportVariable (js ''TURBO_TEAM'') v \<in> set (fst (startCacheServer_try w))"
    by (simp add: mem_fst_startCacheServer)
  from try_exports [OF this] show "v = teamId_of w"
    by (simp add: js_eq_iff)
next
  assume "Unref \<in> set (fst (startCacheServer w))"
  then have u: "Unref \<in> set (fst (startCacheServer_try w))"
    by (simp add: mem_fst_startCacheServer)
  show "ExportVariable (js ''TURBO_API'') (host_of w @ js '':'' @ Number_toString (free_port w))
        \<in> set (fst (startCacheServer w))"
    using try_unref_exports(1) [OF u] by (simp add: mem_fst_startCacheServer)
  show "ExportVariable (js ''TURBO_TEAM'') (teamId_of w) \<in> set (fst (startCacheServer w))"
    using try_unref_exports(3) [OF u] by (simp add: mem_fst_startCacheServer)
qed

theorem published_api_and_team_witness:
  "Unref \<in> set (fst (startCacheServer world_s3)) \<and>
   ExportVariable (js ''TURBO_API'') (js ''http://localhost:4000'') \<in> set (fst (startCacheServer world_s3)) \<and>
   ExportVariable (js ''TURBO_TEAM'') (js ''production'') \<in> set (fst (startCacheServer world_s3)) \<and>
   Unref \<in> set (fst (startCacheServer world_timeout)) \<and>
   ExportVariable (js ''TURBO_API'') (js ''http://127.0.0.1:3000'') \<in> set (fst (startCacheServer world_timeout)) \<and>
   ExportVariable (js ''TURBO_TEAM'') (js ''ci'') \<in> set (fst (startCacheServer world_timeout))"
  using published_api_and_team [of world_s3] world_s3_unref
    published_api_and_team [of world_timeout] world_timeout_reaches_poll(1)
  by (simp add: world_s3_simps world_timeout_simps Number_toString_4000 Number_toString_3000 js_append)

subsection \<open>Handoff state\<close>

text \<open>
  Claim C4. When the launch succeeds (the \<open>try\<close> block ends without a throw, so
  the port was reported open and there is no failure signal), the handoff state
  persisted is exactly \<open>serverPid\<close>, the decimal string of the child's pid or
  the empty string when the child has none, and then \<open>serverPort\<close>, the decimal
  string of the allocated port.
\<close>

theorem success_persists_pid_and_port:
  assumes "snd (startCacheServer_try w) = Inr ()"
  shows "port_open w \<and> failures (fst (startCacheServer w)) = [] \<and>
         saved (fst (startCacheServer w)) =
           [(js ''serverPid'', case child_pid w of None \<Rightarrow> [] | Some n \<Rightarrow> Number_toString n),
            (js ''serverPort'', Number_toString (free_port w))]"
  using try_success_trace [OF assms]
  by (simp add: fst_startCacheServer assms saved_simps failures_simps pid_state_def)

theorem success_persists_pid_and_port_witness:
  "snd (startCacheServer_try world_s3) = Inr () \<and>
   saved (fst (startCacheServer world_s3)) =
     [(js ''serverPid'', js ''54321''), (js ''serverPort'', js ''4000'')] \<and>
   snd (startCacheServer_try world_pidless) = Inr () \<and>
   saved (fst (startCacheServer world_pidless)) =
     [(js ''serverPid'', []), (js ''serverPort'', js ''4000'')]"
  using success_persists_pid_and_port [OF world_s3_success] world_s3_success
    success_persists_pid_and_port [OF world_pidless_success] world_pidless_success
  by (simp add: world_s3_simps world_pidless_simps Number_toString_4000 Number_toString_54321)

subsection \<open>The token\<close>

text \<open>
  Claim C8. The token of a run, the hex encoding of the 32 bytes taken from the
  random source, has exactly 64 characters, each one of \<open>0123456789abcdef\<close>;
  every published \<open>TURBO_TOKEN\<close> is that token, and every run that gets as far
  as the spawned child has published it.
\<close>

theorem token_is_64_lowercase_hex_digits:
  "length (token_of w) = 64 \<and> set (token_of w) \<subseteq> set (js ''0123456789abcdef'') \<and>
   (\<forall>t. ExportVariable (js ''TURBO_TOKEN'') t \<in> set (fst (startCacheServer w)) \<longrightarrow> t = token_of w) \<and>
   (Unref \<in> set (fst (startCacheServer w)) \<longrightarrow>
      ExportVariable (js ''TURBO_TOKEN'') (token_of w) \<in> set (fst (startCacheServer w)))"
proof (intro conjI allI impI)
  show "length (token_of w) = 64"
    by (simp add: token_of_def length_toString_hex)
  show "set (token_of w) \<subseteq> set (js ''0123456789abcdef'')"
    using set_toString_hex [of "map (entropy w) [0..<32]"]
    by (simp add: token_of_def hex_digits_def)
next
  fix t assume "ExportVariable (js ''TURBO_TOKEN'') t \<in> set (fst (startCacheServer w))"
  then have "ExportVariable (js ''TURBO_TOKEN'') t \<in> set (fst (startCacheServer_try w))"
    by (simp add: mem_fst_startCacheServer)
  from try_exports [OF this] show "t = token_of w"
    by (simp add: js_eq_iff)
next
  assume "Unref \<in> set (fst (startCacheServer w))"
  then have u: "Unref \<in> set (fst (startCacheServer_try w))"
    by (simp add: mem_fst_startCacheServer)
  show "ExportVariable (js ''TURBO_TOKEN'') (token_of w) \<in> set (fst (startCacheServer w))"
    using try_unref_exports(2) [OF u] by (simp add: mem_fst_startCacheServer)
qed

theorem token_is_64_lowercase_hex_digits_witness:
  "Unref \<in> set (fst (startCacheServer world_s3)) \<and>
   ExportVariable (js ''TURBO_TOKEN'')
     (js ''0000000000000000000000000000000000000000000000000000000000000000'')
     \<in> set (fst (startCacheServer world_s3)) \<and>
   length (js ''0000000000000000000000000000000000000000000000000000000000000000'') = 64"
  using token_is_64_lowercase_hex_digits [of world_s3] world_s3_unref
  by (simp add: token_of_world_s3)

subsection \<open>Schema validation\<close>

text \<open>
  Claim C9. The object the launcher builds from any port, token and storage
  inputs passes \<open>ServerEnvSchema.parse\<close> unchanged, with \<open>PORT\<close> and
  \<open>TURBO_TOKEN\<close> present as strings; so the validation-failure branch is never
  taken: a run does not depend on the message a validation error would carry.
\<close>

theorem built_environment_always_validates:
  "ServerEnvSchema_parse (serverEnvData p t sp spath) = Inr (serverEnvData p t sp spath) \<and>
   map_of (serverEnvData p t sp spath) (js ''PORT'') = Some (JString (Number_toString p)) \<and>
   map_of (serverEnvData p t sp spath) (js ''TURBO_TOKEN'') = Some (JString t) \<and>
   startCacheServer (w\<lparr>zod_message := z\<rparr>) = startCacheServer w"
proof (intro conjI)
  show "ServerEnvSchema_parse (serverEnvData p t sp spath) = Inr (serverEnvData p t sp spath)"
    by (rule parse_serverEnvData)
  show "map_of (serverEnvData p t sp spath) (js ''PORT'') = Some (JString (Number_toString p))"
    by (simp add: map_of_serverEnvData js_eq_iff)
  show "map_of (serverEnvData p t sp spath) (js ''TURBO_TOKEN'') = Some (JString t)"
    by (simp add: map_of_serverEnvData js_eq_iff)
  have "startCacheServer_try (w\<lparr>zod_message := z\<rparr>) = startCacheServer_try w"
    unfolding launch_defs
    by (simp add: parse_serverEnvData call_def child_env_def)
  then show "startCacheServer (w\<lparr>zod_message := z\<rparr>) = startCacheServer w"
    by (simp add: startCacheServer_def)
qed

theorem built_environment_always_validates_witness:
  "ServerEnvSchema_parse
     [(js ''PORT'', JString (js ''4000'')), (js ''TURBO_TOKEN'', JString (js ''abc'')),
      (js ''STORAGE_PROVIDER'', JString (js ''s3'')), (js ''STORAGE_PATH'', JString (js ''my-bucket''))] =
   Inr [(js ''PORT'', JString (js ''4000'')), (js ''TURBO_TOKEN'', JString (js ''abc'')),
      (js ''STORAGE_PROVIDER'', JString (js ''s3'')), (js ''STORAGE_PATH'', JString (js ''my-bucket''))]"
  using built_environment_always_validates
      [where p = 4000 and t = "js ''abc''" and sp = "js ''s3''" and spath = "js ''my-bucket''"
         and w = world_s3 and z = "\<lambda>_. []"]
  by (simp add: serverEnvData_def spread_def Number_toString_4000 js_eq_iff js_Nil_iff)

subsection \<open>Storage settings in the child's environment\<close>

text \<open>
  Claim C10, as amended. The key \<open>STORAGE_PROVIDER\<close> is in the environment the
  launcher builds for the child exactly when the storage-provider input is not
  empty, and then holds the input; the environment the child is spawned with is
  that one laid over \<open>process.env\<close>, so the key is in it exactly when the input
  is not empty or \<open>process.env\<close> has the key already, whose value is then passed
  on. Likewise \<open>STORAGE_PATH\<close> and the storage-path input. A run reads its inputs
  only through \<open>core.getInput\<close>, so an input set to the empty string and an
  input that is absent give the same run, child environment and report lines
  included.
\<close>

theorem storage_keys_in_child_environment:
  "map_of (serverEnv_of w) (js ''STORAGE_PROVIDER'') =
     (if storageProvider_of w = [] then None else Some (JString (storageProvider_of w))) \<and>
   map_of (serverEnv_of w) (js ''STORAGE_PATH'') =
     (if storagePath_of w = [] then None else Some (JString (storagePath_of w))) \<and>
   (\<forall>c a d s env. Spawn c a d s env \<in> set (fst (startCacheServer w)) \<longrightarrow>
      map_of env (js ''STORAGE_PROVIDER'') =
        (if storageProvider_of w = []
         then map_option JString (map_of (process_env w) (js ''STORAGE_PROVIDER''))
         else Some (JString (storageProvider_of w))) \<and>
      map_of env (js ''STORAGE_PATH'') =
        (if storagePath_of w = []
         then map_option JString (map_of (process_env w) (js ''STORAGE_PATH''))
         else Some (JString (storagePath_of w)))) \<and>
   ((\<forall>k. lookup_or_empty ins k = lookup_or_empty (inputs w) k) \<longrightarrow>
      startCacheServer (w\<lparr>inputs := ins\<rparr>) = startCacheServer w)"
proof (intro conjI allI impI)
  show p1: "map_of (serverEnv_of w) (js ''STORAGE_PROVIDER'') =
     (if storageProvider_of w = [] then None else Some (JString (storageProvider_of w)))"
    by (simp add: serverEnv_of_def map_of_serverEnvData js_eq_iff)
  show p2: "map_of (serverEnv_of w) (js ''STORAGE_PATH'') =
     (if storagePath_of w = [] then None else Some (JString (storagePath_of w)))"
    by (simp add: serverEnv_of_def map_of_serverEnvData js_eq_iff)
  fix c a d s env
  assume "Spawn c a d s env \<in> set (fst (startCacheServer w))"
  then have "Spawn c a d s env \<in> set (fst (startCacheServer_try w))"
    by (simp add: mem_fst_startCacheServer)
  then have env: "env = child_env w (serverEnv_of w)"
    by (rule try_spawn_env)
  show "map_of env (js ''STORAGE_PROVIDER'') =
        (if storageProvider_of w = []
         then map_option JString (map_of (process_env w) (js ''STORAGE_PROVIDER''))
         else Some (JString (storageProvider_of w)))"
    by (simp add: env map_of_child_env p1)
  show "map_of env (js ''STORAGE_PATH'') =
        (if storagePath_of w = []
         then map_option JString (map_of (process_env w) (js ''STORAGE_PATH''))
         else Some (JString (storagePath_of w)))"
    by (simp add: env map_of_child_env p2)
next
  assume "\<forall>k. lookup_or_empty ins k = lookup_or_empty (inputs w) k"
  then show "startCacheServer (w\<lparr>inputs := ins\<rparr>) = startCacheServer w"
    by (simp add: inputs_only_through_lookup)
qed

text \<open>
  Claim C10 as it was stated fails: with no storage-provider input and a job
  environment that sets \<open>STORAGE_PROVIDER\<close>, the child is spawned with the key.
\<close>

theorem storage_provider_from_ambient_environment:
  "lookup_or_empty (inputs world_ambient) (js ''storage-provider'') = [] \<and>
   Spawn (js ''npx'') [js ''turborepo-remote-cache''] True (js ''ignore'')
     [(js ''STORAGE_PROVIDER'', JString (js ''s3'')),
      (js ''PORT'', JString (js ''3000'')),
      (js ''TURBO_TOKEN'', JString (token_of world_ambient))]
   \<in> set (fst (startCacheServer world_ambient)) \<and>
   map_of [(js ''STORAGE_PROVIDER'', JString (js ''s3'')),
           (js ''PORT'', JString (js ''3000'')),
           (js ''TURBO_TOKEN'', JString (token_of world_ambient))] (js ''STORAGE_PROVIDER'')
     = Some (JString (js ''s3''))"
  using world_ambient_spawn
  by (simp add: child_env_world_ambient world_ambient_simps lookup_or_empty_def)

theorem storage_keys_in_child_environment_witness:
  "Spawn (js ''npx'') [js ''turborepo-remote-cache''] True (js ''ignore'')
     (child_env world_ambient (serverEnv_of world_ambient))
     \<in> set (fst (startCacheServer world_ambient)) \<and>
   map_of (child_env world_ambient (serverEnv_of world_ambient)) (js ''STORAGE_PROVIDER'')
     = Some (JString (js ''s3'')) \<and>
   map_of (child_env world_ambient (serverEnv_of world_ambient)) (js ''STORAGE_PATH'') = None \<and>
   map_of (serverEnv_of world_ambient) (js ''STORAGE_PROVIDER'') = None \<and>
   startCacheServer (world_ambient\<lparr>inputs := [(js ''storage-provider'', [])]\<rparr>)
     = startCacheServer world_ambient"
proof -
  have same: "lookup_or_empty [(js ''storage-provider'', [])] k
      = lookup_or_empty (inputs world_ambient) k" for k
    by (simp add: lookup_or_empty_def world_ambient_simps)
  show ?thesis
    using storage_keys_in_child_environment
      [where w = world_ambient and ins = "[(js ''storage-provider'', [])]"]
      world_ambient_spawn same
    by (simp add: world_ambient_simps js_eq_iff)
qed

section \<open>The cleanup phase\<close>

lemma stopServer_eq:
  "stopServer w serverPid =
     ([Kill (parseInt serverPid) (js ''SIGTERM''),
       Info (case fault w (Kill (parseInt serverPid) (js ''SIGTERM'')) of
               None \<Rightarrow> check_mark @ js '' Turborepo Remote Cache Server stopped (PID: '' @ serverPid @ js '')''
             | Some e \<Rightarrow> cross_mark @ js '' Failed to stop server process '' @ serverPid @ js '': ''
                          @ error_message e)],
      Inr ())"
  by (simp add: stopServer_def try_catch_emit run_simps split: option.splits)

lemma displayLogFile_settled_eq:
  "displayLogFile_settled w logFile =
     (case fault w (ReadFile logFile (js ''utf8'')) of
        Some e \<Rightarrow> [Debug (js ''Could not read log file '' @ logFile @ js '': '' @ error_message e)]
      | None \<Rightarrow>
          if trim (file_content w logFile) \<noteq> []
          then [StartGroup (clipboard @ js '' '' @ logFile),
                Info (indentedContent (file_content w logFile)), EndGroup]
          else [],
      Inr ())"
  by (simp add: displayLogFile_settled_def try_catch_emit run_simps fst_ret snd_ret
      split: option.splits)

lemma displayLogs_eq:
  "displayLogs w =
     ([ReadFile (js ''logs/turborepo-remote-cache.log'') (js ''utf8''),
       ReadFile (js ''logs/turborepo-remote-cache-error.log'') (js ''utf8'')] @
      (if second_settles_first w
       then fst (displayLogFile_settled w (js ''logs/turborepo-remote-cache-error.log'')) @
            fst (displayLogFile_settled w (js ''logs/turborepo-remote-cache.log''))
       else fst (displayLogFile_settled w (js ''logs/turborepo-remote-cache.log'')) @
            fst (displayLogFile_settled w (js ''logs/turborepo-remote-cache-error.log''))),
      Inr ())"
  by (simp add: displayLogs_def logFiles_def Let_def displayLogFile_settled_eq List.map_filter_simps)

lemma cleanupCacheServer_eq:
  "cleanupCacheServer w =
     (case fault w (GetState (js ''serverPid'')) of
        Some e \<Rightarrow> ([GetState (js ''serverPid''),
                    SetFailed (js ''Error in post action: '' @ error_message e)], Inr ())
      | None \<Rightarrow>
          if lookup_or_empty (state_store w) (js ''serverPid'') = []
          then ([GetState (js ''serverPid''),
                 Info (cross_mark @ js '' Turborepo Remote Cache Server was not started or PID not found'')],
                Inr ())
          else (GetState (js ''serverPid'')
                  # fst (stopServer w (lookup_or_empty (state_store w) (js ''serverPid'')))
                  @ fst (displayLogs w), Inr ()))"
  by (simp add: cleanupCacheServer_def getState_def try_catch_emit run_simps fst_bnd snd_bnd
      stopServer_eq displayLogs_eq split: option.splits)

lemma failures_displayLogFile_settled: "failures (fst (displayLogFile_settled w f)) = []"
  by (simp add: displayLogFile_settled_eq failures_simps split: option.splits)

lemma failures_displayLogs: "failures (fst (displayLogs w)) = []"
  by (simp add: displayLogs_eq failures_simps failures_displayLogFile_settled)

lemma kills_displayLogFile_settled: "kills (fst (displayLogFile_settled w f)) = []"
  by (simp add: displayLogFile_settled_eq kills_simps split: option.splits)

lemma kills_displayLogs: "kills (fst (displayLogs w)) = []"
  by (simp add: displayLogs_eq kills_simps kills_displayLogFile_settled)

subsection \<open>The example run\<close>

lemma world_kill_fails_simps:
  "fault world_kill_fails (GetState k) = None"
  "fault world_kill_fails (Kill p s) = Some (Error (js ''Process not found''))"
  "fault world_kill_fails (ReadFile f enc) = None"
  "lookup_or_empty (state_store world_kill_fails) (js ''serverPid'') = js ''12345''"
  "file_content world_kill_fails f = three_lines"
  "\<not> second_settles_first world_kill_fails"
  by (simp_all add: world_kill_fails_def lookup_or_empty_def)

lemma world_kill_fails_trace:
  "fst (cleanupCacheServer world_kill_fails) =
     [GetState (js ''serverPid''),
      Kill (Some 12345) (js ''SIGTERM''),
      Info (cross_mark @ js '' Failed to stop server process 12345: Process not found''),
      ReadFile (js ''logs/turborepo-remote-cache.log'') (js ''utf8''),
      ReadFile (js ''logs/turborepo-remote-cache-error.log'') (js ''utf8''),
      StartGroup (clipboard @ js '' logs/turborepo-remote-cache.log''),
      Info (js ''  Line 1'' @ [NL] @ js ''  Line 2'' @ [NL] @ js ''  Line 3''),
      EndGroup,
      StartGroup (clipboard @ js '' logs/turborepo-remote-cache-error.log''),
      Info (js ''  Line 1'' @ [NL] @ js ''  Line 2'' @ [NL] @ js ''  Line 3''),
      EndGroup]"
  by (simp add: cleanupCacheServer_eq stopServer_eq displayLogs_eq displayLogFile_settled_eq
      world_kill_fails_simps parseInt_12345 trim_three_lines indentedContent_three_lines
      js_append js_Nil_iff)

subsection \<open>No persisted pid\<close>

text \<open>
  Claim C5. When the persisted \<open>serverPid\<close> is unset or the empty string, the
  cleanup never calls \<open>process.kill\<close>; and when reading the state does not throw,
  the whole run is the state read followed by one informational message that the
  server was not started, it ends normally and there is no failure signal.
\<close>

theorem cleanup_without_pid_sends_no_signal:
  assumes "map_of (state_store w) (js ''serverPid'') = None \<or>
           map_of (state_store w) (js ''serverPid'') = Some []"
  shows "kills (fst (cleanupCacheServer w)) = [] \<and>
         (fault w (GetState (js ''serverPid'')) = None \<longrightarrow>
            cleanupCacheServer w =
              ([GetState (js ''serverPid''),
                Info (cross_mark @ js '' Turborepo Remote Cache Server was not started or PID not found'')],
               Inr ()) \<and>
            failures (fst (cleanupCacheServer w)) = [])"
proof -
  from assms have "lookup_or_empty (state_store w) (js ''serverPid'') = []"
    by (auto simp: lookup_or_empty_def)
  then show ?thesis
    by (simp add: cleanupCacheServer_eq kills_simps failures_simps split: option.splits)
qed

theorem cleanup_without_pid_sends_no_signal_witness:
  "map_of (state_store world_no_pid) (js ''serverPid'') = None \<and>
   kills (fst (cleanupCacheServer world_no_pid)) = [] \<and>
   cleanupCacheServer world_no_pid =
     ([GetState (js ''serverPid''),
       Info (cross_mark @ js '' Turborepo Remote Cache Server was not started or PID not found'')],
      Inr ())"
proof -
  have s: "map_of (state_store world_no_pid) (js ''serverPid'') = None"
    and f: "fault world_no_pid (GetState (js ''serverPid'')) = None"
    by (simp_all add: world_no_pid_def)
  show ?thesis
    using cleanup_without_pid_sends_no_signal [of world_no_pid] s f
    by (simp add: kills_simps)
qed

subsection \<open>A termination signal that throws\<close>

text \<open>
  Claim C6, as amended. When a non-empty \<open>serverPid\<close> was persisted and the
  termination signal throws, the cleanup ends normally with no failure signal;
  after the state read and the \<open>process.kill\<close> call it reports the informational
  message made of the cross mark U+274C, a space and
  \<open>Failed to stop server process {pid}: {m}\<close>, where \<open>m\<close> is the message of what
  was thrown, and then starts reading both log files.
\<close>

theorem kill_failure_is_reported_and_logs_are_read:
  assumes "fault w (GetState (js ''serverPid'')) = None"
      and "lookup_or_empty (state_store w) (js ''serverPid'') = pid"
      and "pid \<noteq> []"
      and "fault w (Kill (parseInt pid) (js ''SIGTERM'')) = Some e"
  shows "snd (cleanupCacheServer w) = Inr () \<and>
         failures (fst (cleanupCacheServer w)) = [] \<and>
         (\<exists>rest. fst (cleanupCacheServer w) =
            [GetState (js ''serverPid''),
             Kill (parseInt pid) (js ''SIGTERM''),
             Info (cross_mark @ js '' Failed to stop server process '' @ pid @ js '': '' @ error_message e),
             ReadFile (js ''logs/turborepo-remote-cache.log'') (js ''utf8''),
             ReadFile (js ''logs/turborepo-remote-cache-error.log'') (js ''utf8'')] @ rest)"
  using assms
  by (simp add: cleanupCacheServer_eq stopServer_eq failures_simps failures_displayLogs)
     (simp add: displayLogs_eq)

text \<open>
  Claim C6 as it was stated fails on the message: with the persisted pid
  \<open>12345\<close> and a signal that throws \<open>Process not found\<close>, no informational
  message of the run is \<open>Failed to stop server process 12345: Process not found\<close>;
  the message that is reported starts with the cross mark.
\<close>

theorem kill_failure_message_has_cross_mark:
  "lookup_or_empty (state_store world_kill_fails) (js ''serverPid'') = js ''12345'' \<and>
   fault world_kill_fails (Kill (parseInt (js ''12345'')) (js ''SIGTERM''))
     = Some (Error (js ''Process not found'')) \<and>
   Info (js ''Failed to stop server process 12345: Process not found'')
     \<notin> set (fst (cleanupCacheServer world_kill_fails)) \<and>
   Info (cross_mark @ js '' Failed to stop server process 12345: Process not found'')
     \<in> set (fst (cleanupCacheServer world_kill_fails))"
proof (intro conjI)
  show "lookup_or_empty (state_store world_kill_fails) (js ''serverPid'') = js ''12345''"
    by (rule world_kill_fails_simps)
  show "fault world_kill_fails (Kill (parseInt (js ''12345'')) (js ''SIGTERM''))
     = Some (Error (js ''Process not found''))"
    by (rule world_kill_fails_simps)
  have "Info (js ''Failed to stop server process 12345: Process not found'') \<noteq> Info (cross_mark @ s)" for s
    by (simp add: cross_mark_def js_simps)
  moreover have "Info (js ''Failed to stop server process 12345: Process not found'') \<noteq> Info (js ''  Line 1'' @ s)" for s
    by (simp add: js_simps of_char_word16_eq_iff)
  ultimately show "Info (js ''Failed to stop server process 12345: Process not found'')
     \<notin> set (fst (cleanupCacheServer world_kill_fails))"
    by (simp add: world_kill_fails_trace)
  show "Info (cross_mark @ js '' Failed to stop server process 12345: Process not found'')
     \<in> set (fst (cleanupCacheServer world_kill_fails))"
    by (simp add: world_kill_fails_trace)
qed

theorem kill_failure_is_reported_and_logs_are_read_witness:
  "snd (cleanupCacheServer world_kill_fails) = Inr () \<and>
   failures (fst (cleanupCacheServer world_kill_fails)) = [] \<and>
   (\<exists>rest. fst (cleanupCacheServer world_kill_fails) =
      [GetState (js ''serverPid''),
       Kill (Some 12345) (js ''SIGTERM''),
       Info (cross_mark @ js '' Failed to stop server process 12345: Process not found''),
       ReadFile (js ''logs/turborepo-remote-cache.log'') (js ''utf8''),
       ReadFile (js ''logs/turborepo-remote-cache-error.log'') (js ''utf8'')] @ rest)"
proof -
  have ne: "js ''12345'' \<noteq> []"
    by (simp add: js_Nil_iff)
  show ?thesis
    using kill_failure_is_reported_and_logs_are_read
      [OF world_kill_fails_simps(1) world_kill_fails_simps(4) ne world_kill_fails_simps(2)]
    by (simp add: parseInt_12345 js_append)
qed

subsection \<open>Log display\<close>

text \<open>
  Claim C7. When the cleanup gets to the logs (a non-empty \<open>serverPid\<close> was
  read), a log file whose read succeeds and whose trimmed content is not empty
  is displayed as one group: the group is opened under a title that is the
  clipboard sign U+1F4CB, a space and the file's path, one informational message
  carries the indented content, and the group is closed. The lines of the
  indented content are the lines of the file's content, in the same order and
  number, each with exactly two spaces in front, empty lines included, and the
  lines of a content joined by newlines are the content again.
\<close>

theorem log_content_is_displayed_indented:
  assumes "fault w (GetState (js ''serverPid'')) = None"
      and "lookup_or_empty (state_store w) (js ''serverPid'') \<noteq> []"
      and "logFile \<in> set logFiles"
      and "fault w (ReadFile logFile (js ''utf8'')) = None"
      and "trim (file_content w logFile) \<noteq> []"
  shows "(\<exists>before after. fst (cleanupCacheServer w) =
            before @
            [StartGroup (clipboard @ js '' '' @ logFile),
             Info (indentedContent (file_content w logFile)),
             EndGroup] @ after) \<and>
         split_nl (indentedContent c) = map (\<lambda>line. js ''  '' @ line) (split_nl c) \<and>
         join_nl (split_nl c) = c"
proof (intro conjI)
  let ?group = "[StartGroup (clipboard @ js '' '' @ logFile),
             Info (indentedContent (file_content w logFile)), EndGroup]"
  have settled: "fst (displayLogFile_settled w logFile) = ?group"
    using assms(4,5) by (simp add: displayLogFile_settled_eq)
  have "\<exists>p q. fst (displayLogs w) = p @ fst (displayLogFile_settled w logFile) @ q"
  proof (cases "logFile = js ''logs/turborepo-remote-cache.log''")
    case True
    show ?thesis
    proof (cases "second_settles_first w")
      case True
      have "fst (displayLogs w) =
          ([ReadFile (js ''logs/turborepo-remote-cache.log'') (js ''utf8''),
            ReadFile (js ''logs/turborepo-remote-cache-error.log'') (js ''utf8'')] @
           fst (displayLogFile_settled w (js ''logs/turborepo-remote-cache-error.log''))) @
          fst (displayLogFile_settled w logFile) @ []"
        using True \<open>logFile = js ''logs/turborepo-remote-cache.log''\<close>
        by (simp add: displayLogs_eq)
      then show ?thesis by blast
    next
      case False
      have "fst (displayLogs w) =
          [ReadFile (js ''logs/turborepo-remote-cache.log'') (js ''utf8''),
           ReadFile (js ''logs/turborepo-remote-cache-error.log'') (js ''utf8'')] @
          fst (displayLogFile_settled w logFile) @
          fst (displayLogFile_settled w (js ''logs/turborepo-remote-cache-error.log''))"
        using False \<open>logFile = js ''logs/turborepo-remote-cache.log''\<close>
        by (simp add: displayLogs_eq)
      then show ?thesis by blast
    qed
  next
    case False
    with assms(3) have lf: "logFile = js ''logs/turborepo-remote-cache-error.log''"
      by (simp add: logFiles_def)
    show ?thesis
    proof (cases "second_settles_first w")
      case True
      have "fst (displayLogs w) =
          [ReadFile (js ''logs/turborepo-remote-cache.log'') (js ''utf8''),
           ReadFile (js ''logs/turborepo-remote-cache-error.log'') (js ''utf8'')] @
          fst (displayLogFile_settled w logFile) @
          fst (displayLogFile_settled w (js ''logs/turborepo-remote-cache.log''))"
        using True lf by (simp add: displayLogs_eq)
      then show ?thesis by blast
    next
      case False
      have "fst (displayLogs w) =
          ([ReadFile (js ''logs/turborepo-remote-cache.log'') (js ''utf8''),
            ReadFile (js ''logs/turborepo-remote-cache-error.log'') (js ''utf8'')] @
           fst (displayLogFile_settled w (js ''logs/turborepo-remote-cache.log''))) @
          fst (displayLogFile_settled w logFile) @ []"
        using False lf by (simp add: displayLogs_eq)
      then show ?thesis by blast
    qed
  qed
  then obtain p q where logs: "fst (displayLogs w) = p @ ?group @ q"
    unfolding settled by blast
  have "fst (cleanupCacheServer w) =
      (GetState (js ''serverPid'')
        # fst (stopServer w (lookup_or_empty (state_store w) (js ''serverPid''))) @ p) @ ?group @ q"
    using assms(1,2) by (simp add: cleanupCacheServer_eq logs)
  then show "\<exists>before after. fst (cleanupCacheServer w) = before @ ?group @ after"
    by blast
  show "split_nl (indentedContent c) = map (\<lambda>line. js ''  '' @ line) (split_nl c)"
    by (rule split_nl_indentedContent)
  show "join_nl (split_nl c) = c"
    by (rule join_split_nl)
qed

theorem log_content_is_displayed_indented_witness:
  "js ''logs/turborepo-remote-cache.log'' \<in> set logFiles \<and>
   trim (file_content world_kill_fails (js ''logs/turborepo-remote-cache.log'')) \<noteq> [] \<and>
   (\<exists>before after. fst (cleanupCacheServer world_kill_fails) =
      before @
      [StartGroup (clipboard @ js '' logs/turborepo-remote-cache.log''),
       Info (js ''  Line 1'' @ [NL] @ js ''  Line 2'' @ [NL] @ js ''  Line 3''),
       EndGroup] @ after) \<and>
   split_nl (js ''  Line 1'' @ [NL] @ js ''  Line 2'' @ [NL] @ js ''  Line 3'') =
     [js ''  Line 1'', js ''  Line 2'', js ''  Line 3'']"
proof -
  have ne: "lookup_or_empty (state_store world_kill_fails) (js ''serverPid'') \<noteq> []"
    by (simp add: world_kill_fails_simps js_Nil_iff)
  have lf: "js ''logs/turborepo-remote-cache.log'' \<in> set logFiles"
    by (simp add: logFiles_def)
  have tr: "trim (file_content world_kill_fails (js ''logs/turborepo-remote-cache.log'')) \<noteq> []"
    by (simp add: world_kill_fails_simps trim_three_lines)
  show ?thesis
    using log_content_is_displayed_indented
      [OF world_kill_fails_simps(1) ne lf world_kill_fails_simps(3) tr, of three_lines] lf tr
    by (simp add: world_kill_fails_simps indentedContent_three_lines split_nl_three_lines js_append)
qed

end
